theory Spec2Isabelle
  imports Main
begin

section \<open>Data model\<close>

text \<open>
  The OTP login flow of \<^verbatim>\<open>main.py\<close>: the handlers \<^verbatim>\<open>request_otp\<close> and
  \<^verbatim>\<open>verify_otp\<close> over the two MongoDB collections \<^verbatim>\<open>otp\<close> and
  \<^verbatim>\<open>authuser\<close>.

  A \<^verbatim>\<open>datetime\<close> is a reading of the clock as Python has it: an integer count of
  microseconds since the epoch. The store keeps and compares dates in milliseconds
  (\<open>millis\<close>): a \<^verbatim>\<open>datetime\<close> that is written to a document, or that stands in a
  query, is cut down to the millisecond (\<open>to_millis\<close>). The largest \<^verbatim>\<open>datetime\<close> is
  the last microsecond of the year 9999, and arithmetic that would pass it raises
  \<^verbatim>\<open>OverflowError\<close>.

  Strings are lists of characters with code points below 256; on these, case folding
  and whitespace are those of Python.
\<close>

type_synonym datetime = int

type_synonym millis = int

text \<open>\<^verbatim>\<open>timedelta(minutes=m)\<close>, in microseconds.\<close>

definition minutes :: "int \<Rightarrow> int" where
  "minutes m = m * 60000000"

text \<open>The date the store holds for a \<^verbatim>\<open>datetime\<close>: the milliseconds, rounded down.\<close>

definition to_millis :: "datetime \<Rightarrow> millis" where
  "to_millis t = t div 1000"

text \<open>\<^verbatim>\<open>datetime.max\<close>, 9999-12-31 23:59:59.999999.\<close>

definition datetime_max :: datetime where
  "datetime_max = 253402300799999999"

text \<open>
  A document of the \<^verbatim>\<open>otp\<close> collection. The collection is the list of its documents
  in insertion order, and a document's \<^verbatim>\<open>_id\<close> is its position in that list: the
  program never deletes a document, so the position is a unique and stable key.
  \<^verbatim>\<open>updated_at\<close> is absent until \<^verbatim>\<open>verify_otp\<close> sets it.
\<close>

record otp_doc =
  otp_email :: string
  otp_code :: string
  otp_expires_at :: millis
  otp_used :: bool
  otp_created_at :: millis
  otp_updated_at :: "millis option"

text \<open>
  A document of the \<^verbatim>\<open>authuser\<close> collection. \<^verbatim>\<open>None\<close> stands for a field that is
  null or absent: the document that the upsert of \<^verbatim>\<open>verify_otp\<close> creates has no
  \<^verbatim>\<open>display_name\<close> and no \<^verbatim>\<open>created_at\<close>, the one \<^verbatim>\<open>request_otp\<close> inserts has no
  \<^verbatim>\<open>last_login\<close>.
\<close>

record user_doc =
  user_email :: string
  display_name :: "string option"
  is_verified :: bool
  user_created_at :: "millis option"
  user_updated_at :: millis
  last_login :: "millis option"

record database =
  otp :: "otp_doc list"
  authuser :: "user_doc list"

text \<open>
  What a handler raises: the \<^verbatim>\<open>HTTPException\<close> it constructs, or the
  \<^verbatim>\<open>OverflowError\<close> of a date past \<^verbatim>\<open>datetime.max\<close>.
\<close>

datatype raised = HTTPException nat string | OverflowError

record request_otp_response =
  message :: string
  dev_otp :: string
  expires_in_seconds :: int

record verify_otp_response =
  success :: bool
  token :: string
  email :: string

section \<open>Strings\<close>

text \<open>
  \<^verbatim>\<open>str.lower()\<close>: the letters A to Z, and the accented capitals 192 to 214 and 216 to
  222, are mapped to the small letter 32 places further on.
\<close>

definition lower_char :: "char \<Rightarrow> char" where
  "lower_char c =
     (let n = (of_char c :: nat) in
      if (65 \<le> n \<and> n \<le> 90) \<or> (192 \<le> n \<and> n \<le> 214) \<or> (216 \<le> n \<and> n \<le> 222)
      then char_of (n + 32) else c)"

definition lower :: "string \<Rightarrow> string" where
  "lower s = map lower_char s"

text \<open>
  The characters \<^verbatim>\<open>str.strip()\<close> removes: tab, line feed, vertical tab, form feed,
  carriage return, the separators 28 to 31, the space, the next-line control 133 and the
  no-break space 160.
\<close>

definition is_space :: "char \<Rightarrow> bool" where
  "is_space c =
     (let n = (of_char c :: nat) in
      (9 \<le> n \<and> n \<le> 13) \<or> (28 \<le> n \<and> n \<le> 32) \<or> n = 133 \<or> n = 160)"

text \<open>\<^verbatim>\<open>str.strip()\<close>: whitespace is dropped at both ends.\<close>

definition strip :: "string \<Rightarrow> string" where
  "strip s = rev (dropWhile is_space (rev (dropWhile is_space s)))"

text \<open>\<^verbatim>\<open>payload.email.lower().strip()\<close>\<close>

definition normalize_email :: "string \<Rightarrow> string" where
  "normalize_email e = strip (lower e)"

text \<open>The decimal digits of a natural number, most significant first.\<close>

definition digit_char :: "nat \<Rightarrow> char" where
  "digit_char d = char_of (48 + d)"

fun dec_digits :: "nat \<Rightarrow> string" where
  "dec_digits n =
     (if n < 10 then [digit_char n] else dec_digits (n div 10) @ [digit_char (n mod 10)])"

declare dec_digits.simps [simp del]

text \<open>
  The format \<^verbatim>\<open>f"{n:06d}"\<close>: decimal, at least six characters wide, padded with zeros
  between the sign and the digits; a wider number is not cut.
\<close>

definition format_06d :: "int \<Rightarrow> string" where
  "format_06d n =
     (let sgn = (if n < 0 then ''-'' else '''');
          ds = dec_digits (nat \<bar>n\<bar>)
      in sgn @ replicate (6 - length sgn - length ds) (CHR ''0'') @ ds)"

section \<open>The store\<close>

text \<open>
  Modelled from the spec: \<^verbatim>\<open>create_document\<close> of \<^verbatim>\<open>database.py\<close>, which is not among
  the sources. The spec's \<^verbatim>\<open>InsertOtp(record)\<close> stores the record it is given, and the
  stored record carries a \<^verbatim>\<open>createdAt\<close>; the time of the insertion is the argument
  \<open>stamp\<close>. The caller supplies the other fields. The two dates are stored in
  milliseconds.
\<close>

definition create_document_otp ::
  "database \<Rightarrow> string \<Rightarrow> string \<Rightarrow> datetime \<Rightarrow> bool \<Rightarrow> datetime \<Rightarrow> database" where
  "create_document_otp db e c expires u stamp =
     db\<lparr>otp := otp db @
        [\<lparr>otp_email = e, otp_code = c, otp_expires_at = to_millis expires, otp_used = u,
          otp_created_at = to_millis stamp, otp_updated_at = None\<rparr>]\<rparr>"

text \<open>
  The filter of the query in \<^verbatim>\<open>verify_otp\<close>:
  \<^verbatim>\<open>{"email": email, "code": code, "used": False, "expires_at": {"$gte": now}}\<close>.
  The date \<open>now\<close> of the query is compared in milliseconds with the stored one.
\<close>

definition otp_matches :: "string \<Rightarrow> string \<Rightarrow> datetime \<Rightarrow> otp_doc \<Rightarrow> bool" where
  "otp_matches e c now d =
     (otp_email d = e \<and> otp_code d = c \<and> otp_used d = False \<and>
      to_millis now \<le> otp_expires_at d)"

text \<open>
  \<^verbatim>\<open>find_one(filter, sort=[("created_at", -1)])\<close> over the documents from position \<open>i\<close>
  on: the matching document with the greatest \<^verbatim>\<open>created_at\<close>, with its \<^verbatim>\<open>_id\<close>. Among
  documents with the same greatest \<^verbatim>\<open>created_at\<close> the store may return any; the model
  returns the one inserted first.
\<close>

fun find_one_newest :: "(otp_doc \<Rightarrow> bool) \<Rightarrow> otp_doc list \<Rightarrow> nat \<Rightarrow> (nat \<times> otp_doc) option" where
  "find_one_newest P [] i = None"
| "find_one_newest P (d # ds) i =
     (let rest = find_one_newest P ds (Suc i) in
      if P d then
        (case rest of
           None \<Rightarrow> Some (i, d)
         | Some (j, e) \<Rightarrow> if otp_created_at d < otp_created_at e then Some (j, e) else Some (i, d))
      else rest)"

text \<open>\<^verbatim>\<open>db["authuser"].find_one({"email": email})\<close>: the first document with that email.\<close>

definition find_one_user :: "user_doc list \<Rightarrow> string \<Rightarrow> user_doc option" where
  "find_one_user us e = List.find (\<lambda>u. user_email u = e) us"

text \<open>\<^verbatim>\<open>update_one\<close> without upsert changes the first document the filter selects.\<close>

fun update_first :: "('a \<Rightarrow> bool) \<Rightarrow> ('a \<Rightarrow> 'a) \<Rightarrow> 'a list \<Rightarrow> 'a list" where
  "update_first P f [] = []"
| "update_first P f (x # xs) = (if P x then f x # xs else x # update_first P f xs)"

text \<open>
  \<^verbatim>\<open>update_one({"email": email}, {"$set": {"is_verified": True, "last_login": now,
  "updated_at": now}}, upsert=True)\<close>: the first document with that email is changed;
  when there is none, a document with the email and the three fields is inserted. The
  date \<open>now\<close> is stored in milliseconds.
\<close>

definition upsert_user_verified :: "user_doc list \<Rightarrow> string \<Rightarrow> datetime \<Rightarrow> user_doc list" where
  "upsert_user_verified us e now =
     (if \<exists>u \<in> set us. user_email u = e then
        update_first (\<lambda>u. user_email u = e)
          (\<lambda>u. u\<lparr>is_verified := True, last_login := Some (to_millis now),
                 user_updated_at := to_millis now\<rparr>) us
      else
        us @ [\<lparr>user_email = e, display_name = None, is_verified = True,
                user_created_at = None, user_updated_at = to_millis now,
                last_login = Some (to_millis now)\<rparr>])"

section \<open>The handlers\<close>

text \<open>
  \<^verbatim>\<open>request_otp\<close>. The global \<^verbatim>\<open>db\<close> is \<open>None\<close> when the store is not configured.
  What the handler reads from its environment is passed in: \<open>r\<close> is the value of
  \<^verbatim>\<open>random.randint(0, 999999)\<close>, \<open>t0\<close> the clock at \<^verbatim>\<open>expires_at\<close>, \<open>t1\<close> the clock
  inside \<^verbatim>\<open>create_document\<close>, \<open>t2\<close> and \<open>t3\<close> the clock at the user's \<^verbatim>\<open>created_at\<close>
  and \<^verbatim>\<open>updated_at\<close>. The sum \<^verbatim>\<open>datetime.now(timezone.utc) + timedelta(minutes=5)\<close>
  raises when it passes \<^verbatim>\<open>datetime.max\<close>, before anything is written. The result is the
  response or the exception raised, and the store afterwards.
\<close>

definition request_otp ::
  "database option \<Rightarrow> string \<Rightarrow> int \<Rightarrow> datetime \<Rightarrow> datetime \<Rightarrow> datetime \<Rightarrow> datetime \<Rightarrow>
   (raised + request_otp_response) \<times> database option" where
  "request_otp dbo payload_email r t0 t1 t2 t3 =
     (case dbo of
        None \<Rightarrow> (Inl (HTTPException 500 ''Database not configured''), None)
      | Some db \<Rightarrow>
          (let e = normalize_email payload_email;
               c = format_06d r
           in if datetime_max < t0 + minutes 5 then (Inl OverflowError, Some db)
              else
                (let expires_at = t0 + minutes 5;
                     db1 = create_document_otp db e c expires_at False t1;
                     db2 = (case find_one_user (authuser db1) e of
                              Some existing \<Rightarrow> db1
                            | None \<Rightarrow>
                                db1\<lparr>authuser := authuser db1 @
                                  [\<lparr>user_email = e, display_name = None, is_verified = False,
                                    user_created_at = Some (to_millis t2),
                                    user_updated_at = to_millis t3, last_login = None\<rparr>]\<rparr>)
                 in (Inr \<lparr>message = ''OTP sent to your email'', dev_otp = c,
                           expires_in_seconds = 300\<rparr>, Some db2))))"

text \<open>
  \<^verbatim>\<open>verify_otp\<close>, with \<open>now\<close> the one clock reading the handler takes. Both raises
  come before the first write. The two updates store \<open>now\<close> in milliseconds.
\<close>

definition verify_otp ::
  "database option \<Rightarrow> string \<Rightarrow> string \<Rightarrow> datetime \<Rightarrow>
   (raised + verify_otp_response) \<times> database option" where
  "verify_otp dbo payload_email payload_code now =
     (case dbo of
        None \<Rightarrow> (Inl (HTTPException 500 ''Database not configured''), None)
      | Some db \<Rightarrow>
          (let e = normalize_email payload_email;
               c = strip payload_code
           in case find_one_newest (otp_matches e c now) (otp db) 0 of
                None \<Rightarrow> (Inl (HTTPException 400 ''Invalid or expired code''), Some db)
              | Some (i, d) \<Rightarrow>
                  (let db1 = db\<lparr>otp := (otp db)[i := (otp db ! i)\<lparr>otp_used := True,
                                           otp_updated_at := Some (to_millis now)\<rparr>]\<rparr>;
                       db2 = db1\<lparr>authuser := upsert_user_verified (authuser db1) e now\<rparr>;
                       tok = ''demo-token-'' @ e
                   in (Inr \<lparr>success = True, token = tok, email = e\<rparr>, Some db2))))"

text \<open>A call of either handler, with what it reads from its environment.\<close>

datatype call =
  RequestOTP string int datetime datetime datetime datetime
| VerifyOTP string string datetime

fun step :: "database option \<Rightarrow> call \<Rightarrow> database option" where
  "step dbo (RequestOTP e r t0 t1 t2 t3) = snd (request_otp dbo e r t0 t1 t2 t3)"
| "step dbo (VerifyOTP e c now) = snd (verify_otp dbo e c now)"

definition run :: "database option \<Rightarrow> call list \<Rightarrow> database option" where
  "run dbo cs = foldl step dbo cs"

section \<open>Dates\<close>

lemma to_millis_bounds: "to_millis t * 1000 \<le> t \<and> t < to_millis t * 1000 + 1000"
proof -
  have "t div 1000 * 1000 + t mod 1000 = t" by (rule div_mult_mod_eq)
  moreover have "0 \<le> t mod 1000" and "t mod 1000 < 1000" by simp_all
  ultimately show ?thesis unfolding to_millis_def by linarith
qed

lemma to_millis_mono: "a \<le> b \<Longrightarrow> to_millis a \<le> to_millis b"
  unfolding to_millis_def by (rule zdiv_mono1) simp_all


section \<open>The query\<close>

lemma find_one_newest_None:
  "find_one_newest P ds i = None \<longleftrightarrow> (\<forall>d \<in> set ds. \<not> P d)"
  by (induction ds arbitrary: i) (auto simp: Let_def split: option.splits)

lemma find_one_newest_Some:
  "find_one_newest P ds i = Some (j, e) \<Longrightarrow>
     i \<le> j \<and> j < i + length ds \<and> ds ! (j - i) = e \<and> P e \<and>
     (\<forall>d \<in> set ds. P d \<longrightarrow> otp_created_at d \<le> otp_created_at e)"
proof (induction ds arbitrary: i j e)
  case Nil
  then show ?case by simp
next
  case (Cons d ds)
  show ?case
  proof (cases "find_one_newest P ds (Suc i)")
    case None
    with Cons.prems have "P d" "j = i" "e = d"
      by (auto simp: Let_def split: if_splits)
    moreover from None have "\<forall>x \<in> set ds. \<not> P x"
      by (simp add: find_one_newest_None)
    ultimately show ?thesis by auto
  next
    case (Some p)
    obtain k f where p: "p = (k, f)" by (cases p)
    from Cons.IH [of "Suc i" k f] Some p
    have ih: "Suc i \<le> k" "k < Suc i + length ds" "ds ! (k - Suc i) = f" "P f"
      "\<forall>x \<in> set ds. P x \<longrightarrow> otp_created_at x \<le> otp_created_at f"
      by auto
    show ?thesis
    proof (cases "P d \<and> \<not> otp_created_at d < otp_created_at f")
      case True
      with Cons.prems Some p have "j = i" "e = d"
        by (auto simp: Let_def)
      with True ih show ?thesis by fastforce
    next
      case False
      with Cons.prems Some p have je: "j = k" "e = f"
        by (auto simp: Let_def split: if_splits)
      from ih(1) have "(d # ds) ! (k - i) = ds ! (k - Suc i)"
        by (simp add: nth_Cons')
      with False ih je show ?thesis by auto
    qed
  qed
qed

lemma find_one_newest_0:
  "find_one_newest P ds 0 = Some (j, e) \<Longrightarrow>
     j < length ds \<and> ds ! j = e \<and> P e \<and>
     (\<forall>d \<in> set ds. P d \<longrightarrow> otp_created_at d \<le> otp_created_at e)"
  using find_one_newest_Some [of P ds 0 j e] by simp

lemma find_one_newest_exists:
  "d \<in> set ds \<Longrightarrow> P d \<Longrightarrow> \<exists>j e. find_one_newest P ds i = Some (j, e)"
  using find_one_newest_None [of P ds i] by (cases "find_one_newest P ds i") auto

section \<open>The outcomes of verify_otp\<close>

lemma verify_otp_no_match:
  assumes "\<forall>d \<in> set (otp db). \<not> otp_matches (normalize_email e) (strip c) now d"
  shows "verify_otp (Some db) e c now =
           (Inl (HTTPException 400 ''Invalid or expired code''), Some db)"
proof -
  from assms have "find_one_newest (otp_matches (normalize_email e) (strip c) now) (otp db) 0 = None"
    by (simp add: find_one_newest_None)
  then show ?thesis by (simp add: verify_otp_def Let_def)
qed

lemma verify_otp_match:
  assumes "find_one_newest (otp_matches (normalize_email e) (strip c) now) (otp db) 0 = Some (i, d)"
  shows "verify_otp (Some db) e c now =
           (Inr \<lparr>success = True, token = ''demo-token-'' @ normalize_email e,
                 email = normalize_email e\<rparr>,
            Some (db\<lparr>otp := (otp db)[i := (otp db ! i)\<lparr>otp_used := True,
                                                       otp_updated_at := Some (to_millis now)\<rparr>],
                     authuser := upsert_user_verified (authuser db) (normalize_email e) now\<rparr>))"
  using assms by (simp add: verify_otp_def Let_def)

lemma verify_otp_cases:
  obtains
    (unconfigured) "dbo = None"
      "verify_otp dbo e c now = (Inl (HTTPException 500 ''Database not configured''), None)"
  | (no_match) db where "dbo = Some db"
      "\<forall>d \<in> set (otp db). \<not> otp_matches (normalize_email e) (strip c) now d"
      "verify_otp dbo e c now = (Inl (HTTPException 400 ''Invalid or expired code''), Some db)"
  | (match) db i where "dbo = Some db" "i < length (otp db)"
      "otp_matches (normalize_email e) (strip c) now (otp db ! i)"
      "\<forall>d \<in> set (otp db). otp_matches (normalize_email e) (strip c) now d \<longrightarrow>
         otp_created_at d \<le> otp_created_at (otp db ! i)"
      "verify_otp dbo e c now =
         (Inr \<lparr>success = True, token = ''demo-token-'' @ normalize_email e,
               email = normalize_email e\<rparr>,
          Some (db\<lparr>otp := (otp db)[i := (otp db ! i)\<lparr>otp_used := True,
                                                     otp_updated_at := Some (to_millis now)\<rparr>],
                   authuser := upsert_user_verified (authuser db) (normalize_email e) now\<rparr>))"
proof (cases dbo)
  case None
  then show ?thesis using unconfigured by (simp add: verify_otp_def)
next
  case (Some db)
  show ?thesis
  proof (cases "find_one_newest (otp_matches (normalize_email e) (strip c) now) (otp db) 0")
    case None
    then have "\<forall>d \<in> set (otp db). \<not> otp_matches (normalize_email e) (strip c) now d"
      by (simp add: find_one_newest_None)
    with Some show ?thesis using no_match verify_otp_no_match by blast
  next
    case (Some p)
    obtain i d where p: "p = (i, d)" by (cases p)
    from Some p find_one_newest_0 [of _ "otp db" i d]
    have "i < length (otp db)" "otp db ! i = d"
      "otp_matches (normalize_email e) (strip c) now d"
      "\<forall>x \<in> set (otp db). otp_matches (normalize_email e) (strip c) now x \<longrightarrow>
         otp_created_at x \<le> otp_created_at d"
      by auto
    with \<open>dbo = Some db\<close> Some p show ?thesis
      using match [of db i] verify_otp_match [of e c now db i d] by auto
  qed
qed

section \<open>Failure writes nothing\<close>

text \<open>
  C10: \<^verbatim>\<open>verify_otp\<close> writes nothing when it fails. It fails in two ways only, with
  status 500 when the store is not configured and with status 400 when no document
  matches; in both the store it leaves is the store it was given, every \<^verbatim>\<open>otp\<close> and
  every \<^verbatim>\<open>authuser\<close> document unchanged.
\<close>

theorem verify_otp_failure_writes_nothing:
  assumes "verify_otp dbo e c now = (Inl err, dbo')"
  shows "dbo' = dbo \<and>
         (err = HTTPException 500 ''Database not configured'' \<and> dbo = None \<or>
          err = HTTPException 400 ''Invalid or expired code'' \<and>
            (\<exists>db. dbo = Some db \<and>
               (\<forall>d \<in> set (otp db). \<not> otp_matches (normalize_email e) (strip c) now d)))"
proof (cases dbo e c now rule: verify_otp_cases)
  case unconfigured
  with assms show ?thesis by simp
next
  case (no_match db)
  with assms show ?thesis by simp
next
  case (match db i)
  with assms show ?thesis by simp
qed

theorem verify_otp_failure_writes_nothing_witness:
  "verify_otp
     (Some \<lparr>otp = [\<lparr>otp_email = ''a@b.com'', otp_code = ''000042'', otp_expires_at = 301000,
                    otp_used = True, otp_created_at = 1001, otp_updated_at = Some 1500\<rparr>],
            authuser = [\<lparr>user_email = ''a@b.com'', display_name = None, is_verified = True,
                         user_created_at = Some 1002, user_updated_at = 1500,
                         last_login = Some 1500\<rparr>]\<rparr>)
     ''A@b.com '' ''000042'' 2000999 =
   (Inl (HTTPException 400 ''Invalid or expired code''),
    Some \<lparr>otp = [\<lparr>otp_email = ''a@b.com'', otp_code = ''000042'', otp_expires_at = 301000,
                   otp_used = True, otp_created_at = 1001, otp_updated_at = Some 1500\<rparr>],
           authuser = [\<lparr>user_email = ''a@b.com'', display_name = None, is_verified = True,
                        user_created_at = Some 1002, user_updated_at = 1500,
                        last_login = Some 1500\<rparr>]\<rparr>)"
  (is "?call = ?failure")
proof -
  have h: "?call = ?failure" by code_simp
  from verify_otp_failure_writes_nothing [OF h] h show ?thesis by simp
qed

section \<open>The user upsert\<close>

lemma find_update_first:
  "\<exists>x \<in> set xs. P x \<Longrightarrow> (\<And>x. P x \<Longrightarrow> P (f x)) \<Longrightarrow>
     List.find P (update_first P f xs) = map_option f (List.find P xs)"
  by (induction xs) auto

lemma find_append_new:
  "\<forall>x \<in> set xs. \<not> P x \<Longrightarrow> P y \<Longrightarrow> List.find P (xs @ [y]) = Some y"
  by (induction xs) auto

lemma find_one_user_None:
  "find_one_user us e = None \<longleftrightarrow> (\<forall>u \<in> set us. user_email u \<noteq> e)"
  by (auto simp: find_one_user_def find_None_iff)

lemma find_one_user_upsert:
  "\<exists>u. find_one_user (upsert_user_verified us e now) e = Some u \<and> user_email u = e \<and>
         is_verified u \<and> last_login u = Some (to_millis now) \<and> user_updated_at u = to_millis now"
proof (cases "\<exists>u \<in> set us. user_email u = e")
  case True
  then obtain v where v: "List.find (\<lambda>u. user_email u = e) us = Some v"
    by (cases "List.find (\<lambda>u. user_email u = e) us") (auto simp: find_None_iff)
  then have "user_email v = e"
    by (auto simp: find_Some_iff)
  moreover from True
  have "List.find (\<lambda>u. user_email u = e)
          (update_first (\<lambda>u. user_email u = e)
             (\<lambda>u. u\<lparr>is_verified := True, last_login := Some (to_millis now),
                   user_updated_at := to_millis now\<rparr>) us) =
        map_option (\<lambda>u. u\<lparr>is_verified := True, last_login := Some (to_millis now),
                   user_updated_at := to_millis now\<rparr>)
          (List.find (\<lambda>u. user_email u = e) us)"
    by (intro find_update_first) auto
  ultimately show ?thesis using True v
    by (simp add: find_one_user_def upsert_user_verified_def)
next
  case False
  then show ?thesis
    by (simp add: find_one_user_def upsert_user_verified_def find_append_new)
qed

lemma upsert_user_verified_absent:
  "find_one_user us e = None \<Longrightarrow>
     upsert_user_verified us e now =
       us @ [\<lparr>user_email = e, display_name = None, is_verified = True,
               user_created_at = None, user_updated_at = to_millis now,
               last_login = Some (to_millis now)\<rparr>]"
  by (auto simp: find_one_user_None upsert_user_verified_def)

section \<open>Success: the user and the token\<close>

text \<open>
  C6, as amended: after a successful \<^verbatim>\<open>verify_otp\<close> the \<^verbatim>\<open>authuser\<close> document that a
  lookup by the normalized email finds exists, has \<^verbatim>\<open>is_verified\<close> true and has
  \<^verbatim>\<open>last_login\<close> equal to the clock reading \<open>now\<close> of the call cut down to the
  millisecond: a date not after \<open>now\<close> and less than a millisecond before it. When no
  document had that email, the upsert has appended one.
\<close>

theorem verify_otp_marks_user_verified:
  assumes "verify_otp dbo e c now = (Inr r, dbo')"
  shows "\<exists>db db' u. dbo = Some db \<and> dbo' = Some db' \<and>
           find_one_user (authuser db') (normalize_email e) = Some u \<and>
           user_email u = normalize_email e \<and> is_verified u \<and>
           last_login u = Some (to_millis now) \<and>
           to_millis now * 1000 \<le> now \<and> now < to_millis now * 1000 + 1000 \<and>
           (find_one_user (authuser db) (normalize_email e) = None \<longrightarrow>
              authuser db' = authuser db @
                [\<lparr>user_email = normalize_email e, display_name = None, is_verified = True,
                  user_created_at = None, user_updated_at = to_millis now,
                  last_login = Some (to_millis now)\<rparr>])"
proof (cases dbo e c now rule: verify_otp_cases)
  case unconfigured
  with assms show ?thesis by simp
next
  case (no_match db)
  with assms show ?thesis by simp
next
  case (match db i)
  obtain u where u: "find_one_user (upsert_user_verified (authuser db) (normalize_email e) now)
                       (normalize_email e) = Some u"
    "user_email u = normalize_email e" "is_verified u" "last_login u = Some (to_millis now)"
    using find_one_user_upsert [of "authuser db" "normalize_email e" now] by blast
  from match(5) assms
  have "dbo' = Some (db\<lparr>otp := (otp db)[i := (otp db ! i)\<lparr>otp_used := True,
                                                          otp_updated_at := Some (to_millis now)\<rparr>],
                        authuser := upsert_user_verified (authuser db) (normalize_email e) now\<rparr>)"
    by simp
  with match(1) u to_millis_bounds [of now] show ?thesis
    by (simp add: upsert_user_verified_absent)
qed

theorem verify_otp_marks_user_verified_witness:
  "verify_otp
     (Some \<lparr>otp = [\<lparr>otp_email = ''a@b.com'', otp_code = ''123456'', otp_expires_at = 301000,
                    otp_used = False, otp_created_at = 1001, otp_updated_at = None\<rparr>],
            authuser = []\<rparr>)
     ''a@b.com'' ''123456'' 2000999 =
   (Inr \<lparr>success = True, token = ''demo-token-a@b.com'', email = ''a@b.com''\<rparr>,
    Some \<lparr>otp = [\<lparr>otp_email = ''a@b.com'', otp_code = ''123456'', otp_expires_at = 301000,
                   otp_used = True, otp_created_at = 1001, otp_updated_at = Some 2000\<rparr>],
           authuser = [\<lparr>user_email = ''a@b.com'', display_name = None, is_verified = True,
                        user_created_at = None, user_updated_at = 2000,
                        last_login = Some 2000\<rparr>]\<rparr>)"
  (is "?call = ?outcome")
proof -
  have h: "?call = ?outcome" by code_simp
  from verify_otp_marks_user_verified [OF h] h show ?thesis by simp
qed

text \<open>
  C6 as stated fails on the date: the store keeps milliseconds, so a call whose clock
  reads 2000.999 ms leaves \<^verbatim>\<open>last_login\<close> at 2000 ms, before the reading.
\<close>

theorem verify_otp_last_login_counterexample:
  "run (Some \<lparr>otp = [], authuser = []\<rparr>)
     [RequestOTP ''a@b.com'' 42 1000500 1001500 1002500 1003500,
      VerifyOTP ''a@b.com'' ''000042'' 2000999] =
   Some \<lparr>otp = [\<lparr>otp_email = ''a@b.com'', otp_code = ''000042'', otp_expires_at = 301000,
                   otp_used = True, otp_created_at = 1001, otp_updated_at = Some 2000\<rparr>],
           authuser = [\<lparr>user_email = ''a@b.com'', display_name = None, is_verified = True,
                        user_created_at = Some 1002, user_updated_at = 2000,
                        last_login = Some 2000\<rparr>]\<rparr> \<and>
   (2000 :: int) * 1000 < 2000999"
  by code_simp

text \<open>
  C9: the token of a successful \<^verbatim>\<open>verify_otp\<close> is \<^verbatim>\<open>demo-token-\<close> followed by the
  normalized email. It depends on nothing else: two successful calls, on any stores, with
  any codes and at any times, return the same token when their emails normalize to the
  same string.
\<close>

theorem verify_otp_token:
  assumes "verify_otp dbo1 e1 c1 now1 = (Inr r1, dbo1')"
    and "verify_otp dbo2 e2 c2 now2 = (Inr r2, dbo2')"
    and "normalize_email e1 = normalize_email e2"
  shows "token r1 = ''demo-token-'' @ normalize_email e1 \<and> token r2 = token r1"
proof -
  have tok: "token r = ''demo-token-'' @ normalize_email e"
    if "verify_otp dbo e c now = (Inr r, dbo')" for dbo e c now r dbo'
    using that by (cases dbo e c now rule: verify_otp_cases) auto
  from tok [OF assms(1)] tok [OF assms(2)] assms(3) show ?thesis by simp
qed

theorem verify_otp_token_witness:
  "verify_otp
     (Some \<lparr>otp = [\<lparr>otp_email = ''a@b.com'', otp_code = ''123456'', otp_expires_at = 301000,
                    otp_used = False, otp_created_at = 1001, otp_updated_at = None\<rparr>],
            authuser = []\<rparr>)
     ''a@b.com'' ''123456'' 2000999 =
   (Inr \<lparr>success = True, token = ''demo-token-a@b.com'', email = ''a@b.com''\<rparr>,
    Some \<lparr>otp = [\<lparr>otp_email = ''a@b.com'', otp_code = ''123456'', otp_expires_at = 301000,
                   otp_used = True, otp_created_at = 1001, otp_updated_at = Some 2000\<rparr>],
           authuser = [\<lparr>user_email = ''a@b.com'', display_name = None, is_verified = True,
                        user_created_at = None, user_updated_at = 2000,
                        last_login = Some 2000\<rparr>]\<rparr>) \<and>
   verify_otp
     (Some \<lparr>otp = [\<lparr>otp_email = ''a@b.com'', otp_code = ''000042'', otp_expires_at = 901000,
                    otp_used = False, otp_created_at = 601001, otp_updated_at = None\<rparr>],
            authuser = []\<rparr>)
     '' A@B.com'' ''000042 '' 700000999 =
   (Inr \<lparr>success = True, token = ''demo-token-a@b.com'', email = ''a@b.com''\<rparr>,
    Some \<lparr>otp = [\<lparr>otp_email = ''a@b.com'', otp_code = ''000042'', otp_expires_at = 901000,
                   otp_used = True, otp_created_at = 601001, otp_updated_at = Some 700000\<rparr>],
           authuser = [\<lparr>user_email = ''a@b.com'', display_name = None, is_verified = True,
                        user_created_at = None, user_updated_at = 700000,
                        last_login = Some 700000\<rparr>]\<rparr>) \<and>
   normalize_email ''a@b.com'' = normalize_email '' A@B.com''"
  (is "?first \<and> ?second \<and> ?same")
proof -
  have h1: ?first by code_simp
  have h2: ?second by code_simp
  have h3: ?same by code_simp
  from verify_otp_token [OF h1 h2 h3] h1 h2 h3 show ?thesis by simp
qed

section \<open>Which document is selected\<close>

text \<open>
  C3: when documents match the query of \<^verbatim>\<open>verify_otp\<close> (the normalized email, the
  trimmed code, unused, \<^verbatim>\<open>expires_at\<close> not before \<open>now\<close>), the call succeeds and the
  document it marks used is a matching one whose \<^verbatim>\<open>created_at\<close> no other matching
  document exceeds. Nothing else in the \<^verbatim>\<open>otp\<close> collection changes.
\<close>

theorem verify_otp_selects_newest:
  assumes "i < length (otp db)"
    and "otp_matches (normalize_email e) (strip c) now (otp db ! i)"
  shows "\<exists>j db'. j < length (otp db) \<and>
           otp_matches (normalize_email e) (strip c) now (otp db ! j) \<and>
           (\<forall>k < length (otp db). otp_matches (normalize_email e) (strip c) now (otp db ! k) \<longrightarrow>
              otp_created_at (otp db ! k) \<le> otp_created_at (otp db ! j)) \<and>
           verify_otp (Some db) e c now =
             (Inr \<lparr>success = True, token = ''demo-token-'' @ normalize_email e,
                   email = normalize_email e\<rparr>, Some db') \<and>
           otp db' = (otp db)[j := (otp db ! j)\<lparr>otp_used := True, otp_updated_at := Some (to_millis now)\<rparr>]"
proof (cases "Some db" e c now rule: verify_otp_cases)
  case unconfigured
  then show ?thesis by simp
next
  case (no_match db0)
  then have "db0 = db" by simp
  with assms(1) have "otp db0 ! i \<in> set (otp db0)" by simp
  with no_match(2) assms(2) \<open>db0 = db\<close> show ?thesis by blast
next
  case (match db0 j)
  then have eq: "db0 = db" by simp
  let ?db' = "db\<lparr>otp := (otp db)[j := (otp db ! j)\<lparr>otp_used := True,
                                                     otp_updated_at := Some (to_millis now)\<rparr>],
                authuser := upsert_user_verified (authuser db) (normalize_email e) now\<rparr>"
  from match(4) eq
  have newest: "\<forall>k < length (otp db).
      otp_matches (normalize_email e) (strip c) now (otp db ! k) \<longrightarrow>
      otp_created_at (otp db ! k) \<le> otp_created_at (otp db ! j)"
    by simp
  from match(2,3,5) eq newest show ?thesis
    by (intro exI [of _ j] exI [of _ ?db']) simp
qed

theorem verify_otp_selects_newest_witness:
  "otp_matches (normalize_email ''a@b.com'') (strip ''000042'') 250000999
     (otp \<lparr>otp = [\<lparr>otp_email = ''a@b.com'', otp_code = ''000042'', otp_expires_at = 301000,
                    otp_used = False, otp_created_at = 1001, otp_updated_at = None\<rparr>,
                   \<lparr>otp_email = ''a@b.com'', otp_code = ''000042'', otp_expires_at = 501000,
                    otp_used = False, otp_created_at = 201001, otp_updated_at = None\<rparr>],
            authuser = []\<rparr> ! 0) \<and>
   verify_otp
     (Some \<lparr>otp = [\<lparr>otp_email = ''a@b.com'', otp_code = ''000042'', otp_expires_at = 301000,
                    otp_used = False, otp_created_at = 1001, otp_updated_at = None\<rparr>,
                   \<lparr>otp_email = ''a@b.com'', otp_code = ''000042'', otp_expires_at = 501000,
                    otp_used = False, otp_created_at = 201001, otp_updated_at = None\<rparr>],
            authuser = []\<rparr>)
     ''a@b.com'' ''000042'' 250000999 =
   (Inr \<lparr>success = True, token = ''demo-token-a@b.com'', email = ''a@b.com''\<rparr>,
    Some \<lparr>otp = [\<lparr>otp_email = ''a@b.com'', otp_code = ''000042'', otp_expires_at = 301000,
                   otp_used = False, otp_created_at = 1001, otp_updated_at = None\<rparr>,
                  \<lparr>otp_email = ''a@b.com'', otp_code = ''000042'', otp_expires_at = 501000,
                   otp_used = True, otp_created_at = 201001, otp_updated_at = Some 250000\<rparr>],
           authuser = [\<lparr>user_email = ''a@b.com'', display_name = None, is_verified = True,
                        user_created_at = None, user_updated_at = 250000,
                        last_login = Some 250000\<rparr>]\<rparr>)"
  (is "otp_matches ?e ?c ?now (otp ?db ! 0) \<and> ?outcome")
proof -
  have h1: "0 < length (otp ?db)" by simp
  have h2: "otp_matches ?e ?c ?now (otp ?db ! 0)" by code_simp
  have h3: ?outcome by code_simp
  from verify_otp_selects_newest [OF h1 h2] h2 h3 show ?thesis by blast
qed

section \<open>Single use\<close>

lemma otp_matches_later:
  "otp_matches e c now2 d \<Longrightarrow> now1 \<le> now2 \<Longrightarrow> otp_matches e c now1 d"
  using to_millis_mono [of now1 now2] by (auto simp: otp_matches_def)

lemma otp_matches_used:
  "\<not> otp_matches e c now (d\<lparr>otp_used := True, otp_updated_at := t\<rparr>)"
  by (simp add: otp_matches_def)

lemma verify_otp_succeeds:
  assumes "i < length (otp db)"
    and "otp_matches (normalize_email e) (strip c) now (otp db ! i)"
  shows "fst (verify_otp (Some db) e c now) =
           Inr \<lparr>success = True, token = ''demo-token-'' @ normalize_email e,
                 email = normalize_email e\<rparr>"
proof (cases "Some db" e c now rule: verify_otp_cases)
  case unconfigured
  then show ?thesis by simp
next
  case (no_match db0)
  then have "db0 = db" by simp
  with assms(1) have "otp db0 ! i \<in> set (otp db0)" by simp
  with no_match(2) assms(2) \<open>db0 = db\<close> show ?thesis by blast
next
  case (match db0 j)
  then show ?thesis by simp
qed

text \<open>
  C1, as amended: when one unused, unexpired document carries the email and the code
  and no other document matches, the first \<^verbatim>\<open>verify_otp\<close> succeeds and a second call
  with the same email and code, not earlier than the first and on the store the first
  one left, fails with status 400 and changes nothing.
\<close>

theorem verify_otp_single_use:
  assumes "i < length (otp db)"
    and "otp_matches (normalize_email e) (strip c) now1 (otp db ! i)"
    and "\<forall>k < length (otp db).
           otp_matches (normalize_email e) (strip c) now1 (otp db ! k) \<longrightarrow> k = i"
    and "now1 \<le> now2"
  shows "\<exists>db1. verify_otp (Some db) e c now1 =
                 (Inr \<lparr>success = True, token = ''demo-token-'' @ normalize_email e,
                       email = normalize_email e\<rparr>, Some db1) \<and>
               verify_otp (Some db1) e c now2 =
                 (Inl (HTTPException 400 ''Invalid or expired code''), Some db1)"
proof (cases "Some db" e c now1 rule: verify_otp_cases)
  case unconfigured
  then show ?thesis by simp
next
  case (no_match db0)
  then have "db0 = db" by simp
  with assms(1) have "otp db0 ! i \<in> set (otp db0)" by simp
  with no_match(2) assms(2) \<open>db0 = db\<close> show ?thesis by blast
next
  case (match db0 j)
  then have eq: "db0 = db" by simp
  with match(2,3) assms(3) have j: "j = i" by simp
  let ?db1 = "db\<lparr>otp := (otp db)[i := (otp db ! i)\<lparr>otp_used := True,
                                                    otp_updated_at := Some (to_millis now1)\<rparr>],
                authuser := upsert_user_verified (authuser db) (normalize_email e) now1\<rparr>"
  have "\<not> otp_matches (normalize_email e) (strip c) now2 d" if "d \<in> set (otp ?db1)" for d
  proof -
    from that obtain k where k: "k < length (otp db)" "d = otp ?db1 ! k"
      by (auto simp: in_set_conv_nth)
    show ?thesis
    proof (cases "k = i")
      case True
      with k show ?thesis by (simp add: otp_matches_used)
    next
      case False
      with k have "d = otp db ! k" by simp
      with assms(3,4) k(1) False show ?thesis
        using otp_matches_later by blast
    qed
  qed
  then have "verify_otp (Some ?db1) e c now2 =
               (Inl (HTTPException 400 ''Invalid or expired code''), Some ?db1)"
    by (intro verify_otp_no_match) blast
  with match(5) eq j show ?thesis by simp
qed


theorem verify_otp_single_use_witness:
  "verify_otp
     (Some
        \<lparr>otp = [\<lparr>otp_email = ''a@b.com'', otp_code = ''111111'', otp_expires_at = 301000,
        otp_used = False, otp_created_at = 1001, otp_updated_at = None\<rparr>,
        \<lparr>otp_email = ''a@b.com'', otp_code = ''222222'', otp_expires_at = 501000,
        otp_used = False, otp_created_at = 201001, otp_updated_at = None\<rparr>],
        authuser = [\<lparr>user_email = ''a@b.com'', display_name = None, is_verified = False,
        user_created_at = Some 1002, user_updated_at = 1003, last_login = None\<rparr>]\<rparr>)
     ''a@b.com'' ''222222'' 250000999 =
   (Inr \<lparr>success = True, token = ''demo-token-a@b.com'', email = ''a@b.com''\<rparr>,
    Some
        \<lparr>otp = [\<lparr>otp_email = ''a@b.com'', otp_code = ''111111'', otp_expires_at = 301000,
        otp_used = False, otp_created_at = 1001, otp_updated_at = None\<rparr>,
        \<lparr>otp_email = ''a@b.com'', otp_code = ''222222'', otp_expires_at = 501000,
        otp_used = True, otp_created_at = 201001, otp_updated_at = Some 250000\<rparr>],
        authuser = [\<lparr>user_email = ''a@b.com'', display_name = None, is_verified = True,
        user_created_at = Some 1002, user_updated_at = 250000, last_login = Some 250000\<rparr>]\<rparr>) \<and>
   verify_otp
     (Some
        \<lparr>otp = [\<lparr>otp_email = ''a@b.com'', otp_code = ''111111'', otp_expires_at = 301000,
        otp_used = False, otp_created_at = 1001, otp_updated_at = None\<rparr>,
        \<lparr>otp_email = ''a@b.com'', otp_code = ''222222'', otp_expires_at = 501000,
        otp_used = True, otp_created_at = 201001, otp_updated_at = Some 250000\<rparr>],
        authuser = [\<lparr>user_email = ''a@b.com'', display_name = None, is_verified = True,
        user_created_at = Some 1002, user_updated_at = 250000, last_login = Some 250000\<rparr>]\<rparr>)
     ''a@b.com'' ''222222'' 260000999 =
   (Inl (HTTPException 400 ''Invalid or expired code''),
    Some
        \<lparr>otp = [\<lparr>otp_email = ''a@b.com'', otp_code = ''111111'', otp_expires_at = 301000,
        otp_used = False, otp_created_at = 1001, otp_updated_at = None\<rparr>,
        \<lparr>otp_email = ''a@b.com'', otp_code = ''222222'', otp_expires_at = 501000,
        otp_used = True, otp_created_at = 201001, otp_updated_at = Some 250000\<rparr>],
        authuser = [\<lparr>user_email = ''a@b.com'', display_name = None, is_verified = True,
        user_created_at = Some 1002, user_updated_at = 250000, last_login = Some 250000\<rparr>]\<rparr>)"
  (is "verify_otp (Some ?db) ?e ?c ?now1 = (?ok, Some ?db1) \<and>
       verify_otp (Some ?db1) ?e ?c ?now2 = (?bad, Some ?db1)")
proof -
  have h1: "1 < length (otp ?db)" by simp
  have h2: "otp_matches (normalize_email ?e) (strip ?c) ?now1 (otp ?db ! 1)" by code_simp
  have "\<not> otp_matches (normalize_email ?e) (strip ?c) ?now1 (otp ?db ! 0)" by code_simp
  then have h3: "\<forall>k < length (otp ?db).
      otp_matches (normalize_email ?e) (strip ?c) ?now1 (otp ?db ! k) \<longrightarrow> k = 1"
    by (auto simp: less_Suc_eq numeral_2_eq_2)
  have h4: "?now1 \<le> ?now2" by simp
  have first: "verify_otp (Some ?db) ?e ?c ?now1 = (?ok, Some ?db1)" by code_simp
  from verify_otp_single_use [OF h1 h2 h3 h4] first show ?thesis by auto
qed

text \<open>
  C1 as stated fails when two unused, unexpired documents carry the same email and code,
  as after two \<^verbatim>\<open>request_otp\<close> calls that drew the same number 42: the first
  \<^verbatim>\<open>verify_otp\<close> marks the newer one, and the second call succeeds on the older one.
\<close>

theorem verify_otp_single_use_counterexample:
  "run (Some \<lparr>otp = [], authuser = []\<rparr>)
     [RequestOTP ''a@b.com'' 42 1000500 1001500 1002500 1003500,
      RequestOTP ''a@b.com'' 42 2000500 2001500 2002500 2003500] =
   Some
        \<lparr>otp = [\<lparr>otp_email = ''a@b.com'', otp_code = ''000042'', otp_expires_at = 301000,
        otp_used = False, otp_created_at = 1001, otp_updated_at = None\<rparr>,
        \<lparr>otp_email = ''a@b.com'', otp_code = ''000042'', otp_expires_at = 302000,
        otp_used = False, otp_created_at = 2001, otp_updated_at = None\<rparr>],
        authuser = [\<lparr>user_email = ''a@b.com'', display_name = None, is_verified = False,
        user_created_at = Some 1002, user_updated_at = 1003, last_login = None\<rparr>]\<rparr> \<and>
   verify_otp
     (Some
        \<lparr>otp = [\<lparr>otp_email = ''a@b.com'', otp_code = ''000042'', otp_expires_at = 301000,
        otp_used = False, otp_created_at = 1001, otp_updated_at = None\<rparr>,
        \<lparr>otp_email = ''a@b.com'', otp_code = ''000042'', otp_expires_at = 302000,
        otp_used = False, otp_created_at = 2001, otp_updated_at = None\<rparr>],
        authuser = [\<lparr>user_email = ''a@b.com'', display_name = None, is_verified = False,
        user_created_at = Some 1002, user_updated_at = 1003, last_login = None\<rparr>]\<rparr>)
     ''a@b.com'' ''000042'' 3000999 =
   (Inr \<lparr>success = True, token = ''demo-token-a@b.com'', email = ''a@b.com''\<rparr>,
    Some
        \<lparr>otp = [\<lparr>otp_email = ''a@b.com'', otp_code = ''000042'', otp_expires_at = 301000,
        otp_used = False, otp_created_at = 1001, otp_updated_at = None\<rparr>,
        \<lparr>otp_email = ''a@b.com'', otp_code = ''000042'', otp_expires_at = 302000,
        otp_used = True, otp_created_at = 2001, otp_updated_at = Some 3000\<rparr>],
        authuser = [\<lparr>user_email = ''a@b.com'', display_name = None, is_verified = True,
        user_created_at = Some 1002, user_updated_at = 3000, last_login = Some 3000\<rparr>]\<rparr>) \<and>
   verify_otp
     (Some
        \<lparr>otp = [\<lparr>otp_email = ''a@b.com'', otp_code = ''000042'', otp_expires_at = 301000,
        otp_used = False, otp_created_at = 1001, otp_updated_at = None\<rparr>,
        \<lparr>otp_email = ''a@b.com'', otp_code = ''000042'', otp_expires_at = 302000,
        otp_used = True, otp_created_at = 2001, otp_updated_at = Some 3000\<rparr>],
        authuser = [\<lparr>user_email = ''a@b.com'', display_name = None, is_verified = True,
        user_created_at = Some 1002, user_updated_at = 3000, last_login = Some 3000\<rparr>]\<rparr>)
     ''a@b.com'' ''000042'' 3001999 =
   (Inr \<lparr>success = True, token = ''demo-token-a@b.com'', email = ''a@b.com''\<rparr>,
    Some
        \<lparr>otp = [\<lparr>otp_email = ''a@b.com'', otp_code = ''000042'', otp_expires_at = 301000,
        otp_used = True, otp_created_at = 1001, otp_updated_at = Some 3001\<rparr>,
        \<lparr>otp_email = ''a@b.com'', otp_code = ''000042'', otp_expires_at = 302000,
        otp_used = True, otp_created_at = 2001, otp_updated_at = Some 3000\<rparr>],
        authuser = [\<lparr>user_email = ''a@b.com'', display_name = None, is_verified = True,
        user_created_at = Some 1002, user_updated_at = 3001, last_login = Some 3001\<rparr>]\<rparr>)"
  by code_simp

section \<open>Other codes stay valid\<close>

text \<open>
  C4, as amended: using one code does not invalidate another. After a successful
  \<^verbatim>\<open>verify_otp\<close> with one code, a call for the same email with a different code whose
  document is unused and unexpired succeeds: an older code stays usable until its own
  expiry or use.
\<close>

theorem verify_otp_older_code_still_valid:
  assumes "verify_otp (Some db) e c1 now1 = (Inr r1, Some db1)"
    and "strip c2 \<noteq> strip c1"
    and "i < length (otp db)"
    and "otp_matches (normalize_email e) (strip c2) now2 (otp db ! i)"
  shows "fst (verify_otp (Some db1) e c2 now2) =
           Inr \<lparr>success = True, token = ''demo-token-'' @ normalize_email e,
                 email = normalize_email e\<rparr>"
proof (cases "Some db" e c1 now1 rule: verify_otp_cases)
  case unconfigured
  then show ?thesis by simp
next
  case (no_match db0)
  with assms(1) show ?thesis by simp
next
  case (match db0 j)
  then have eq: "db0 = db" by simp
  from match(3) assms(2,4) eq have "j \<noteq> i"
    by (auto simp: otp_matches_def)
  moreover from match(5) assms(1) eq
  have "otp db1 = (otp db)[j := (otp db ! j)\<lparr>otp_used := True, otp_updated_at := Some (to_millis now1)\<rparr>]"
    by auto
  ultimately have "i < length (otp db1)" "otp db1 ! i = otp db ! i"
    using assms(3) by simp_all
  with assms(4) show ?thesis
    by (intro verify_otp_succeeds [of i]) simp_all
qed

theorem verify_otp_older_code_still_valid_witness:
  "verify_otp
     (Some
        \<lparr>otp = [\<lparr>otp_email = ''a@b.com'', otp_code = ''000007'', otp_expires_at = 301000,
                 otp_used = False, otp_created_at = 1001, otp_updated_at = None\<rparr>,
                \<lparr>otp_email = ''a@b.com'', otp_code = ''000042'', otp_expires_at = 361000,
                 otp_used = False, otp_created_at = 61001, otp_updated_at = None\<rparr>],
         authuser = [\<lparr>user_email = ''a@b.com'', display_name = None, is_verified = False,
                      user_created_at = Some 1002, user_updated_at = 1003, last_login = None\<rparr>]\<rparr>)
     ''a@b.com'' ''000042'' 100000999 =
   (Inr \<lparr>success = True, token = ''demo-token-a@b.com'', email = ''a@b.com''\<rparr>,
    Some
        \<lparr>otp = [\<lparr>otp_email = ''a@b.com'', otp_code = ''000007'', otp_expires_at = 301000,
                 otp_used = False, otp_created_at = 1001, otp_updated_at = None\<rparr>,
                \<lparr>otp_email = ''a@b.com'', otp_code = ''000042'', otp_expires_at = 361000,
                 otp_used = True, otp_created_at = 61001, otp_updated_at = Some 100000\<rparr>],
         authuser = [\<lparr>user_email = ''a@b.com'', display_name = None, is_verified = True,
                      user_created_at = Some 1002, user_updated_at = 100000, last_login = Some 100000\<rparr>]\<rparr>) \<and>
   fst (verify_otp
     (Some
        \<lparr>otp = [\<lparr>otp_email = ''a@b.com'', otp_code = ''000007'', otp_expires_at = 301000,
                 otp_used = False, otp_created_at = 1001, otp_updated_at = None\<rparr>,
                \<lparr>otp_email = ''a@b.com'', otp_code = ''000042'', otp_expires_at = 361000,
                 otp_used = True, otp_created_at = 61001, otp_updated_at = Some 100000\<rparr>],
         authuser = [\<lparr>user_email = ''a@b.com'', display_name = None, is_verified = True,
                      user_created_at = Some 1002, user_updated_at = 100000, last_login = Some 100000\<rparr>]\<rparr>)
     ''a@b.com'' ''000007'' 200000999) =
   Inr \<lparr>success = True, token = ''demo-token-a@b.com'', email = ''a@b.com''\<rparr>"
  (is "verify_otp (Some ?db) ?e ?c1 ?now1 = (?r1, Some ?db1) \<and> _")
proof -
  have h1: "verify_otp (Some ?db) ?e ?c1 ?now1 = (?r1, Some ?db1)" by code_simp
  have h2: "strip ''000007'' \<noteq> strip ?c1" by code_simp
  have h3: "0 < length (otp ?db)" by simp
  have h4: "otp_matches (normalize_email ?e) (strip ''000007'') 200000999 (otp ?db ! 0)"
    by code_simp
  have n: "normalize_email ?e = ''a@b.com''" by code_simp
  from verify_otp_older_code_still_valid [OF h1 h2 h3 h4] h1 n show ?thesis by simp
qed

text \<open>
  C4 as stated fails: two codes are requested for one email, the newer one is used, and
  the older one, unexpired and unused, is then accepted rather than refused.
\<close>

theorem verify_otp_older_code_counterexample:
  "run (Some \<lparr>otp = [], authuser = []\<rparr>)
     [RequestOTP ''a@b.com'' 7 1000500 1001500 1002500 1003500,
      RequestOTP ''a@b.com'' 42 61000500 61001500 61002500 61003500] =
   Some
        \<lparr>otp = [\<lparr>otp_email = ''a@b.com'', otp_code = ''000007'', otp_expires_at = 301000,
                 otp_used = False, otp_created_at = 1001, otp_updated_at = None\<rparr>,
                \<lparr>otp_email = ''a@b.com'', otp_code = ''000042'', otp_expires_at = 361000,
                 otp_used = False, otp_created_at = 61001, otp_updated_at = None\<rparr>],
         authuser = [\<lparr>user_email = ''a@b.com'', display_name = None, is_verified = False,
                      user_created_at = Some 1002, user_updated_at = 1003, last_login = None\<rparr>]\<rparr> \<and>
   verify_otp
     (Some
        \<lparr>otp = [\<lparr>otp_email = ''a@b.com'', otp_code = ''000007'', otp_expires_at = 301000,
                 otp_used = False, otp_created_at = 1001, otp_updated_at = None\<rparr>,
                \<lparr>otp_email = ''a@b.com'', otp_code = ''000042'', otp_expires_at = 361000,
                 otp_used = False, otp_created_at = 61001, otp_updated_at = None\<rparr>],
         authuser = [\<lparr>user_email = ''a@b.com'', display_name = None, is_verified = False,
                      user_created_at = Some 1002, user_updated_at = 1003, last_login = None\<rparr>]\<rparr>)
     ''a@b.com'' ''000042'' 100000999 =
   (Inr \<lparr>success = True, token = ''demo-token-a@b.com'', email = ''a@b.com''\<rparr>,
    Some
        \<lparr>otp = [\<lparr>otp_email = ''a@b.com'', otp_code = ''000007'', otp_expires_at = 301000,
                 otp_used = False, otp_created_at = 1001, otp_updated_at = None\<rparr>,
                \<lparr>otp_email = ''a@b.com'', otp_code = ''000042'', otp_expires_at = 361000,
                 otp_used = True, otp_created_at = 61001, otp_updated_at = Some 100000\<rparr>],
         authuser = [\<lparr>user_email = ''a@b.com'', display_name = None, is_verified = True,
                      user_created_at = Some 1002, user_updated_at = 100000, last_login = Some 100000\<rparr>]\<rparr>) \<and>
   verify_otp
     (Some
        \<lparr>otp = [\<lparr>otp_email = ''a@b.com'', otp_code = ''000007'', otp_expires_at = 301000,
                 otp_used = False, otp_created_at = 1001, otp_updated_at = None\<rparr>,
                \<lparr>otp_email = ''a@b.com'', otp_code = ''000042'', otp_expires_at = 361000,
                 otp_used = True, otp_created_at = 61001, otp_updated_at = Some 100000\<rparr>],
         authuser = [\<lparr>user_email = ''a@b.com'', display_name = None, is_verified = True,
                      user_created_at = Some 1002, user_updated_at = 100000, last_login = Some 100000\<rparr>]\<rparr>)
     ''a@b.com'' ''000007'' 200000999 =
   (Inr \<lparr>success = True, token = ''demo-token-a@b.com'', email = ''a@b.com''\<rparr>,
    Some
        \<lparr>otp = [\<lparr>otp_email = ''a@b.com'', otp_code = ''000007'', otp_expires_at = 301000,
                 otp_used = True, otp_created_at = 1001, otp_updated_at = Some 200000\<rparr>,
                \<lparr>otp_email = ''a@b.com'', otp_code = ''000042'', otp_expires_at = 361000,
                 otp_used = True, otp_created_at = 61001, otp_updated_at = Some 100000\<rparr>],
         authuser = [\<lparr>user_email = ''a@b.com'', display_name = None, is_verified = True,
                      user_created_at = Some 1002, user_updated_at = 200000, last_login = Some 200000\<rparr>]\<rparr>)"
  by code_simp

section \<open>Normalization\<close>

lemma is_space_lower_char: "is_space (lower_char c) = is_space c"
  by (auto simp: is_space_def lower_char_def Let_def)

lemma lower_char_idem: "lower_char (lower_char c) = lower_char c"
  by (auto simp: lower_char_def Let_def)

lemma lower_idem: "lower (lower s) = lower s"
  by (simp add: lower_def lower_char_idem)

lemma dropWhile_is_space_lower:
  "dropWhile is_space (map lower_char s) = map lower_char (dropWhile is_space s)"
  by (induction s) (simp_all add: is_space_lower_char)

lemma strip_lower: "strip (lower s) = lower (strip s)"
  by (simp add: strip_def lower_def dropWhile_is_space_lower rev_map)

lemma dropWhile_all: "\<forall>x \<in> set xs. P x \<Longrightarrow> dropWhile P xs = []"
  by (induction xs) simp_all

lemma dropWhile_none: "xs = [] \<or> \<not> P (hd xs) \<Longrightarrow> dropWhile P xs = xs"
  by (cases xs) auto

lemma hd_dropWhile_not: "dropWhile P xs = [] \<or> \<not> P (hd (dropWhile P xs))"
  by (induction xs) auto

lemma strip_ends:
  "strip s = [] \<or> (\<not> is_space (hd (strip s)) \<and> \<not> is_space (last (strip s)))"
proof (cases "strip s = []")
  case True
  then show ?thesis by simp
next
  case False
  let ?t = "dropWhile is_space s"
  let ?u = "dropWhile is_space (rev ?t)"
  from False have u: "?u \<noteq> []" by (simp add: strip_def)
  with hd_dropWhile_not [of is_space "rev ?t"] have "\<not> is_space (hd ?u)"
    by blast
  with u have l: "\<not> is_space (last (strip s))"
    by (simp add: strip_def last_rev)
  have "rev ?t = takeWhile is_space (rev ?t) @ ?u" by simp
  then have "?t = rev ?u @ rev (takeWhile is_space (rev ?t))"
    by (metis rev_append rev_rev_ident)
  with u have "hd ?t = hd (rev ?u)"
    by (metis hd_append2 rev_is_Nil_conv)
  moreover from u have "?t \<noteq> []"
    by (metis dropWhile.simps(1) rev.simps(1))
  with hd_dropWhile_not [of is_space s] have "\<not> is_space (hd ?t)"
    by blast
  ultimately have "\<not> is_space (hd (strip s))" by (simp add: strip_def)
  with l show ?thesis by simp
qed

lemma strip_fixed:
  "s = [] \<or> (\<not> is_space (hd s) \<and> \<not> is_space (last s)) \<Longrightarrow> strip s = s"
proof (cases "s = []")
  case True
  then show ?thesis by (simp add: strip_def)
next
  case False
  assume "s = [] \<or> (\<not> is_space (hd s) \<and> \<not> is_space (last s))"
  with False have h: "\<not> is_space (hd s)" and l: "\<not> is_space (last s)" by simp_all
  from h have "dropWhile is_space s = s" by (simp add: dropWhile_none)
  moreover from False l have "dropWhile is_space (rev s) = rev s"
    by (intro dropWhile_none) (simp add: hd_rev)
  ultimately show ?thesis by (simp add: strip_def)
qed

lemma strip_idem: "strip (strip s) = strip s"
  using strip_ends [of s] by (intro strip_fixed) simp

lemma normalize_email_idem: "normalize_email (normalize_email e) = normalize_email e"
  by (simp add: normalize_email_def strip_lower lower_idem strip_idem)

lemma strip_padded:
  assumes "\<forall>ch \<in> set ws1. is_space ch" and "\<forall>ch \<in> set ws2. is_space ch"
  shows "strip (ws1 @ c @ ws2) = strip c"
proof -
  have a: "dropWhile is_space (ws1 @ c @ ws2) = dropWhile is_space (c @ ws2)"
    by (rule dropWhile_append2) (use assms(1) in auto)
  show ?thesis
  proof (cases "\<forall>x \<in> set c. is_space x")
    case True
    with assms(2) have "\<forall>x \<in> set (c @ ws2). is_space x" by auto
    then have b: "dropWhile is_space (c @ ws2) = []" by (rule dropWhile_all)
    from True have "dropWhile is_space c = []" by (rule dropWhile_all)
    then show ?thesis unfolding strip_def a b by (simp only:)
  next
    case False
    then have b: "dropWhile is_space (c @ ws2) = dropWhile is_space c @ ws2"
      by (auto simp: dropWhile_append1)
    have d: "dropWhile is_space (rev ws2 @ rev (dropWhile is_space c)) =
             dropWhile is_space (rev (dropWhile is_space c))"
      by (rule dropWhile_append2) (use assms(2) in auto)
    show ?thesis unfolding strip_def a b rev_append d by (rule refl)
  qed
qed

section \<open>The code format\<close>

lemma digit_char_values:
  "digit_char 0 = CHR ''0''" "digit_char 1 = CHR ''1''" "digit_char 2 = CHR ''2''"
  "digit_char 3 = CHR ''3''" "digit_char 4 = CHR ''4''" "digit_char 5 = CHR ''5''"
  "digit_char 6 = CHR ''6''" "digit_char 7 = CHR ''7''" "digit_char 8 = CHR ''8''"
  "digit_char 9 = CHR ''9''"
  by code_simp+

lemma digit_char_cases: "d < 10 \<Longrightarrow> digit_char d \<in> set ''0123456789''"
proof -
  assume "d < 10"
  then have "d = 0 \<or> d = 1 \<or> d = 2 \<or> d = 3 \<or> d = 4 \<or> d = 5 \<or> d = 6 \<or> d = 7 \<or> d = 8 \<or> d = 9"
    by arith
  then show ?thesis using digit_char_values by auto
qed

lemma dec_digits_digits: "set (dec_digits n) \<subseteq> set ''0123456789''"
proof (induction n rule: dec_digits.induct)
  case (1 n)
  show ?case
  proof (cases "n < 10")
    case True
    then have "dec_digits n = [digit_char n]" by (simp add: dec_digits.simps)
    with True digit_char_cases [of n] show ?thesis by simp
  next
    case False
    with "1" have ih: "set (dec_digits (n div 10)) \<subseteq> set ''0123456789''" by simp
    have "n mod 10 < 10" by simp
    then have d: "digit_char (n mod 10) \<in> set ''0123456789''" by (rule digit_char_cases)
    from False have "dec_digits n = dec_digits (n div 10) @ [digit_char (n mod 10)]"
      by (simp add: dec_digits.simps)
    with ih d show ?thesis by simp
  qed
qed

lemma length_dec_digits: "0 < k \<Longrightarrow> n < 10 ^ k \<Longrightarrow> length (dec_digits n) \<le> k"
proof (induction k arbitrary: n)
  case 0
  then show ?case by simp
next
  case (Suc k)
  show ?case
  proof (cases "n < 10")
    case True
    then have "dec_digits n = [digit_char n]" by (simp add: dec_digits.simps)
    then show ?thesis by simp
  next
    case False
    with Suc.prems have k: "0 < k" by (cases k) simp_all
    from Suc.prems have "n div 10 < 10 ^ k" by (simp add: less_mult_imp_div_less)
    with k Suc.IH have "length (dec_digits (n div 10)) \<le> k" by simp
    moreover from False have "dec_digits n = dec_digits (n div 10) @ [digit_char (n mod 10)]"
      by (simp add: dec_digits.simps)
    ultimately show ?thesis by simp
  qed
qed

lemma zero_digit: "set (replicate k (CHR ''0'')) \<subseteq> set ''0123456789''"
proof -
  have "set (replicate k (CHR ''0'')) \<subseteq> {CHR ''0''}" by auto
  also have "\<dots> \<subseteq> set ''0123456789''" by simp
  finally show ?thesis .
qed

lemma format_06d_nonneg:
  assumes "0 \<le> r" and "r \<le> 999999"
  shows "format_06d r =
           replicate (6 - length (dec_digits (nat r))) (CHR ''0'') @ dec_digits (nat r)"
    and "length (format_06d r) = 6"
    and "set (format_06d r) \<subseteq> set ''0123456789''"
proof -
  from assms show f: "format_06d r =
      replicate (6 - length (dec_digits (nat r))) (CHR ''0'') @ dec_digits (nat r)"
    by (simp add: format_06d_def Let_def)
  from assms have "nat r < 10 ^ 6" by simp
  then have "length (dec_digits (nat r)) \<le> 6"
    by (intro length_dec_digits) simp_all
  with f show "length (format_06d r) = 6" by simp
  show "set (format_06d r) \<subseteq> set ''0123456789''"
    unfolding f set_append by (rule Un_least) (rule zero_digit, rule dec_digits_digits)
qed

lemma not_space_digits: "\<forall>ch \<in> set ''-0123456789''. \<not> is_space ch"
  by code_simp

lemma format_06d_chars: "set (format_06d r) \<subseteq> set ''-0123456789''"
proof -
  have d: "set ''0123456789'' \<subseteq> set ''-0123456789''" by (simp add: subset_insertI)
  have m: "set ''-'' \<subseteq> set ''-0123456789''" by simp
  have "set (format_06d r) =
          set (if r < 0 then ''-'' else '''') \<union>
          (set (replicate (6 - length (if r < 0 then ''-'' else '''') -
                  length (dec_digits (nat \<bar>r\<bar>))) (CHR ''0'')) \<union>
           set (dec_digits (nat \<bar>r\<bar>)))"
    by (simp only: format_06d_def Let_def set_append)
  moreover have "set (if r < 0 then ''-'' else '''') \<subseteq> set ''-0123456789''"
    using m by (cases "r < 0") simp_all
  moreover have "set (replicate k (CHR ''0'')) \<subseteq> set ''-0123456789''" for k
    using zero_digit [of k] d by (rule subset_trans)
  moreover have "set (dec_digits (nat \<bar>r\<bar>)) \<subseteq> set ''-0123456789''"
    using dec_digits_digits d by (rule subset_trans)
  ultimately show ?thesis by (simp only: Un_subset_iff) 
qed

lemma format_06d_no_space: "\<forall>ch \<in> set (format_06d r). \<not> is_space ch"
  using format_06d_chars [of r] not_space_digits by blast

lemma strip_no_space: "\<forall>ch \<in> set s. \<not> is_space ch \<Longrightarrow> strip s = s"
proof (cases "s = []")
  case True
  then show ?thesis by (simp add: strip_def)
next
  case False
  assume "\<forall>ch \<in> set s. \<not> is_space ch"
  with False have "\<not> is_space (hd s)" "\<not> is_space (last s)" by simp_all
  then show ?thesis by (intro strip_fixed) simp
qed

lemma strip_format_06d: "strip (format_06d r) = format_06d r"
  by (rule strip_no_space) (rule format_06d_no_space)

section \<open>Issuing a code\<close>

lemma request_otp_unconfigured:
  "request_otp None e r t0 t1 t2 t3 = (Inl (HTTPException 500 ''Database not configured''), None)"
  by (simp add: request_otp_def)

lemma request_otp_overflow:
  "datetime_max < t0 + minutes 5 \<Longrightarrow>
     request_otp (Some db) e r t0 t1 t2 t3 = (Inl OverflowError, Some db)"
  by (simp add: request_otp_def Let_def)

lemma request_otp_ok:
  assumes "t0 + minutes 5 \<le> datetime_max"
  shows "\<exists>db'. request_otp (Some db) e r t0 t1 t2 t3 =
           (Inr \<lparr>message = ''OTP sent to your email'', dev_otp = format_06d r,
                 expires_in_seconds = 300\<rparr>, Some db') \<and>
         otp db' = otp db @
           [\<lparr>otp_email = normalize_email e, otp_code = format_06d r,
             otp_expires_at = to_millis (t0 + minutes 5), otp_used = False,
             otp_created_at = to_millis t1, otp_updated_at = None\<rparr>] \<and>
         authuser db' =
           (case find_one_user (authuser db) (normalize_email e) of
              Some existing \<Rightarrow> authuser db
            | None \<Rightarrow> authuser db @
                [\<lparr>user_email = normalize_email e, display_name = None, is_verified = False,
                  user_created_at = Some (to_millis t2), user_updated_at = to_millis t3,
                  last_login = None\<rparr>])"
  using assms
  by (simp add: request_otp_def Let_def create_document_otp_def split: option.splits)

text \<open>
  C5, as amended: when the store is configured and the date five minutes ahead exists,
  \<^verbatim>\<open>request_otp\<close> succeeds, and every successful call, on a draw \<open>r\<close> between 0
  and 999999, returns a code of exactly six decimal digits, the digits of \<open>r\<close> behind as
  many zeros as fill the width, together with \<^verbatim>\<open>expires_in_seconds\<close> 300, and appends one
  document to \<^verbatim>\<open>otp\<close>: the normalized email, that code, \<^verbatim>\<open>used\<close> false, and as
  \<^verbatim>\<open>expires_at\<close> the clock reading plus five minutes cut down to the millisecond, which is
  not after that date and less than a millisecond before it.
\<close>

theorem request_otp_issues_code:
  assumes "0 \<le> r" and "r \<le> 999999"
  shows "(dbo \<noteq> None \<and> t0 + minutes 5 \<le> datetime_max \<longrightarrow>
            (\<exists>resp dbo'. request_otp dbo e r t0 t1 t2 t3 = (Inr resp, dbo'))) \<and>
         (\<forall>resp dbo'. request_otp dbo e r t0 t1 t2 t3 = (Inr resp, dbo') \<longrightarrow>
            (\<exists>db db'. dbo = Some db \<and> dbo' = Some db' \<and>
               dev_otp resp =
                 replicate (6 - length (dec_digits (nat r))) (CHR ''0'') @ dec_digits (nat r) \<and>
               length (dev_otp resp) = 6 \<and>
               set (dev_otp resp) \<subseteq> set ''0123456789'' \<and>
               expires_in_seconds resp = 300 \<and>
               otp db' = otp db @
                 [\<lparr>otp_email = normalize_email e, otp_code = dev_otp resp,
                   otp_expires_at = to_millis (t0 + minutes 5), otp_used = False,
                   otp_created_at = to_millis t1, otp_updated_at = None\<rparr>] \<and>
               to_millis (t0 + minutes 5) * 1000 \<le> t0 + minutes 5 \<and>
               t0 + minutes 5 < to_millis (t0 + minutes 5) * 1000 + 1000))"
proof (cases dbo)
  case None
  then show ?thesis by (simp add: request_otp_unconfigured)
next
  case (Some db)
  show ?thesis
  proof (cases "t0 + minutes 5 \<le> datetime_max")
    case False
    with Some show ?thesis by (simp add: request_otp_overflow)
  next
    case True
    from request_otp_ok [OF True, of db e r t1 t2 t3]
    obtain db' where ok: "request_otp (Some db) e r t0 t1 t2 t3 =
        (Inr \<lparr>message = ''OTP sent to your email'', dev_otp = format_06d r,
              expires_in_seconds = 300\<rparr>, Some db')"
      and o: "otp db' = otp db @
           [\<lparr>otp_email = normalize_email e, otp_code = format_06d r,
             otp_expires_at = to_millis (t0 + minutes 5), otp_used = False,
             otp_created_at = to_millis t1, otp_updated_at = None\<rparr>]"
      by blast
    from Some ok o format_06d_nonneg [OF assms] to_millis_bounds [of "t0 + minutes 5"]
    show ?thesis by auto
  qed
qed

theorem request_otp_issues_code_witness:
  "request_otp (Some \<lparr>otp = [], authuser = []\<rparr>) '' A@b.com'' 42
     1000000 1001000 1002000 1003000 =
   (Inr \<lparr>message = ''OTP sent to your email'', dev_otp = ''000042'',
         expires_in_seconds = 300\<rparr>,
    Some \<lparr>otp = [\<lparr>otp_email = ''a@b.com'', otp_code = ''000042'', otp_expires_at = 301000,
                   otp_used = False, otp_created_at = 1001, otp_updated_at = None\<rparr>],
           authuser = [\<lparr>user_email = ''a@b.com'', display_name = None, is_verified = False,
                        user_created_at = Some 1002, user_updated_at = 1003,
                        last_login = None\<rparr>]\<rparr>)"
  (is "?call = ?outcome")
proof -
  have h: "?call = ?outcome" by code_simp
  have r: "(0 :: int) \<le> 42" "(42 :: int) \<le> 999999" by simp_all
  have t: "Some \<lparr>otp = [], authuser = []\<rparr> \<noteq> None \<and> 1000000 + minutes 5 \<le> datetime_max"
    by (simp add: minutes_def datetime_max_def)
  from request_otp_issues_code [OF r, where dbo = "Some \<lparr>otp = [], authuser = []\<rparr>"
      and ?t0.0 = 1000000 and e = "'' A@b.com''" and ?t1.0 = 1001000 and ?t2.0 = 1002000
      and ?t3.0 = 1003000] t h
  show ?thesis by simp
qed

text \<open>
  C5 as stated fails on the stored date: a request whose clock reads 1000.5 ms has
  \<^verbatim>\<open>expires_at\<close> five minutes later, at 301000.5 ms, and the document keeps 301000 ms.
\<close>

theorem request_otp_expires_at_counterexample:
  "request_otp (Some \<lparr>otp = [], authuser = []\<rparr>) ''a@b.com'' 42
     1000500 1001500 1002500 1003500 =
   (Inr \<lparr>message = ''OTP sent to your email'', dev_otp = ''000042'',
         expires_in_seconds = 300\<rparr>,
    Some \<lparr>otp = [\<lparr>otp_email = ''a@b.com'', otp_code = ''000042'', otp_expires_at = 301000,
                   otp_used = False, otp_created_at = 1001, otp_updated_at = None\<rparr>],
           authuser = [\<lparr>user_email = ''a@b.com'', display_name = None, is_verified = False,
                        user_created_at = Some 1002, user_updated_at = 1003,
                        last_login = None\<rparr>]\<rparr>) \<and>
   (301000 :: int) * 1000 \<noteq> 1000500 + minutes 5"
  by code_simp

section \<open>Expiry\<close>




section \<open>Both handlers normalize\<close>

lemma request_otp_normalized:
  "normalize_email e1 = normalize_email e2 \<Longrightarrow>
     request_otp dbo e1 r t0 t1 t2 t3 = request_otp dbo e2 r t0 t1 t2 t3"
  by (cases dbo) (simp_all add: request_otp_def)

lemma verify_otp_normalized:
  "normalize_email e1 = normalize_email e2 \<Longrightarrow> strip c1 = strip c2 \<Longrightarrow>
     verify_otp dbo e1 c1 now = verify_otp dbo e2 c2 now"
  by (cases dbo) (simp_all add: verify_otp_def)

text \<open>
  C7: both handlers see of the email only its normalized form, lower-cased and trimmed,
  and \<^verbatim>\<open>verify_otp\<close> sees of the code only its trimmed form. For two emails \<open>e1\<close> and
  \<open>e2\<close> with the same normalized form, either handler returns the same response and
  leaves the same store for \<open>e1\<close>, for \<open>e2\<close> and for the normalized email itself, also
  with whitespace around the code; and a code requested with \<open>e1\<close> is accepted with
  \<open>e2\<close> and whitespace around it, up to the millisecond of its expiry.
\<close>

theorem normalization_invariance:
  assumes "normalize_email e1 = normalize_email e2"
    and "\<forall>ch \<in> set ws1. is_space ch"
    and "\<forall>ch \<in> set ws2. is_space ch"
  shows "request_otp dbo e1 r t0 t1 t2 t3 =
           request_otp dbo (normalize_email e1) r t0 t1 t2 t3 \<and>
         request_otp dbo e2 r t0 t1 t2 t3 =
           request_otp dbo (normalize_email e1) r t0 t1 t2 t3 \<and>
         verify_otp dbo e1 c now = verify_otp dbo (normalize_email e1) c now \<and>
         verify_otp dbo e2 (ws1 @ c @ ws2) now = verify_otp dbo (normalize_email e1) c now \<and>
         (t0 + minutes 5 \<le> datetime_max \<and> to_millis now \<le> to_millis (t0 + minutes 5) \<longrightarrow>
            (\<exists>resp db1.
               request_otp (Some db) e1 r t0 t1 t2 t3 = (Inr resp, Some db1) \<and>
               verify_otp (Some db1) e2 (ws1 @ dev_otp resp @ ws2) now =
                 verify_otp (Some db1) (normalize_email e1) (dev_otp resp) now \<and>
               fst (verify_otp (Some db1) e2 (ws1 @ dev_otp resp @ ws2) now) =
                 Inr \<lparr>success = True, token = ''demo-token-'' @ normalize_email e1,
                       email = normalize_email e1\<rparr>))"
proof -
  have n1: "normalize_email e1 = normalize_email (normalize_email e1)"
    by (simp add: normalize_email_idem)
  with assms(1) have n2: "normalize_email e2 = normalize_email (normalize_email e1)"
    by simp
  have s: "strip (ws1 @ x @ ws2) = strip x" for x
    using assms(2,3) by (rule strip_padded)
  have a: "request_otp dbo e1 r t0 t1 t2 t3 =
             request_otp dbo (normalize_email e1) r t0 t1 t2 t3"
    using n1 by (rule request_otp_normalized)
  have b: "request_otp dbo e2 r t0 t1 t2 t3 =
             request_otp dbo (normalize_email e1) r t0 t1 t2 t3"
    using n2 by (rule request_otp_normalized)
  have c: "verify_otp dbo' e1 x now = verify_otp dbo' (normalize_email e1) x now" for dbo' x
    using n1 by (rule verify_otp_normalized) simp
  have d: "verify_otp dbo' e2 (ws1 @ x @ ws2) now =
             verify_otp dbo' (normalize_email e1) x now" for dbo' x
    using n2 s by (rule verify_otp_normalized)
  have e: "\<exists>resp db1.
             request_otp (Some db) e1 r t0 t1 t2 t3 = (Inr resp, Some db1) \<and>
             verify_otp (Some db1) e2 (ws1 @ dev_otp resp @ ws2) now =
               verify_otp (Some db1) (normalize_email e1) (dev_otp resp) now \<and>
             fst (verify_otp (Some db1) e2 (ws1 @ dev_otp resp @ ws2) now) =
               Inr \<lparr>success = True, token = ''demo-token-'' @ normalize_email e1,
                     email = normalize_email e1\<rparr>"
    if le: "t0 + minutes 5 \<le> datetime_max"
      and live: "to_millis now \<le> to_millis (t0 + minutes 5)"
  proof -
    let ?resp = "\<lparr>message = ''OTP sent to your email'', dev_otp = format_06d r,
                  expires_in_seconds = 300\<rparr>"
    let ?new = "\<lparr>otp_email = normalize_email e1, otp_code = format_06d r,
                  otp_expires_at = to_millis (t0 + minutes 5), otp_used = False,
                  otp_created_at = to_millis t1, otp_updated_at = None\<rparr>"
    from request_otp_ok [OF le, of db e1 r t1 t2 t3]
    obtain db1 where ok: "request_otp (Some db) e1 r t0 t1 t2 t3 = (Inr ?resp, Some db1)"
      and o: "otp db1 = otp db @ [?new]"
      by blast
    from o have i: "length (otp db) < length (otp db1)" by simp
    from o have "otp db1 ! length (otp db) = ?new" by simp
    with live have
      "otp_matches (normalize_email (normalize_email e1)) (strip (format_06d r)) now
         (otp db1 ! length (otp db))"
      by (simp add: otp_matches_def normalize_email_idem strip_format_06d)
    with i have "fst (verify_otp (Some db1) (normalize_email e1) (format_06d r) now) =
        Inr \<lparr>success = True, token = ''demo-token-'' @ normalize_email (normalize_email e1),
              email = normalize_email (normalize_email e1)\<rparr>"
      by (rule verify_otp_succeeds)
    with ok d [of "Some db1" "format_06d r"] show ?thesis
      by (simp add: normalize_email_idem)
  qed
  from a b c [of dbo c] d [of dbo c] e show ?thesis by blast
qed

theorem normalization_invariance_witness:
  "normalize_email '' A@B.com'' = normalize_email ''a@b.COM '' \<and>
   request_otp (Some \<lparr>otp = [], authuser = []\<rparr>) '' A@B.com'' 42
     1000500 1001500 1002500 1003500 =
   (Inr \<lparr>message = ''OTP sent to your email'', dev_otp = ''000042'',
         expires_in_seconds = 300\<rparr>,
    Some \<lparr>otp = [\<lparr>otp_email = ''a@b.com'', otp_code = ''000042'', otp_expires_at = 301000,
                   otp_used = False, otp_created_at = 1001, otp_updated_at = None\<rparr>],
           authuser = [\<lparr>user_email = ''a@b.com'', display_name = None, is_verified = False,
                        user_created_at = Some 1002, user_updated_at = 1003,
                        last_login = None\<rparr>]\<rparr>) \<and>
   verify_otp
     (Some \<lparr>otp = [\<lparr>otp_email = ''a@b.com'', otp_code = ''000042'', otp_expires_at = 301000,
                    otp_used = False, otp_created_at = 1001, otp_updated_at = None\<rparr>],
            authuser = [\<lparr>user_email = ''a@b.com'', display_name = None, is_verified = False,
                         user_created_at = Some 1002, user_updated_at = 1003,
                         last_login = None\<rparr>]\<rparr>)
     ''a@b.COM '' ('' '' @ ''000042'' @ ''  '') 2000999 =
   verify_otp
     (Some \<lparr>otp = [\<lparr>otp_email = ''a@b.com'', otp_code = ''000042'', otp_expires_at = 301000,
                    otp_used = False, otp_created_at = 1001, otp_updated_at = None\<rparr>],
            authuser = [\<lparr>user_email = ''a@b.com'', display_name = None, is_verified = False,
                         user_created_at = Some 1002, user_updated_at = 1003,
                         last_login = None\<rparr>]\<rparr>)
     (normalize_email '' A@B.com'') ''000042'' 2000999 \<and>
   fst (verify_otp
     (Some \<lparr>otp = [\<lparr>otp_email = ''a@b.com'', otp_code = ''000042'', otp_expires_at = 301000,
                    otp_used = False, otp_created_at = 1001, otp_updated_at = None\<rparr>],
            authuser = [\<lparr>user_email = ''a@b.com'', display_name = None, is_verified = False,
                         user_created_at = Some 1002, user_updated_at = 1003,
                         last_login = None\<rparr>]\<rparr>)
     ''a@b.COM '' ('' '' @ ''000042'' @ ''  '') 2000999) =
   Inr \<lparr>success = True, token = ''demo-token-a@b.com'', email = ''a@b.com''\<rparr>"
  (is "normalize_email ?e1 = normalize_email ?e2 \<and>
       request_otp (Some ?db) ?e1 42 ?t0 ?t1 ?t2 ?t3 = (Inr ?resp, Some ?db1) \<and>
       verify_otp (Some ?db1) ?e2 (?ws1 @ ?c @ ?ws2) ?now = ?direct \<and>
       fst (verify_otp (Some ?db1) ?e2 (?ws1 @ ?c @ ?ws2) ?now) = ?ok")
proof -
  have h1: "normalize_email ?e1 = normalize_email ?e2" by code_simp
  have h2: "\<forall>ch \<in> set ?ws1. is_space ch" by code_simp
  have h3: "\<forall>ch \<in> set ?ws2. is_space ch" by code_simp
  have r: "request_otp (Some ?db) ?e1 42 ?t0 ?t1 ?t2 ?t3 = (Inr ?resp, Some ?db1)"
    by code_simp
  have n: "normalize_email ?e1 = ''a@b.com''" by code_simp
  have t: "?t0 + minutes 5 \<le> datetime_max \<and> to_millis ?now \<le> to_millis (?t0 + minutes 5)"
    by (simp add: minutes_def datetime_max_def to_millis_def)
  from normalization_invariance [OF h1 h2 h3, where dbo = "Some ?db1" and c = ?c
      and now = ?now and db = ?db and r = 42 and ?t0.0 = ?t0 and ?t1.0 = ?t1
      and ?t2.0 = ?t2 and ?t3.0 = ?t3] t r n h1
  show ?thesis by auto
qed

section \<open>The used flag\<close>

lemma step_request_otp:
  "\<exists>db'. step (Some db) (RequestOTP e r t0 t1 t2 t3) = Some db' \<and>
         (otp db' = otp db \<or> (\<exists>d. otp db' = otp db @ [d] \<and> \<not> otp_used d))"
proof (cases "t0 + minutes 5 \<le> datetime_max")
  case True
  from request_otp_ok [OF True, of db e r t1 t2 t3] show ?thesis by auto
next
  case False
  then show ?thesis by (simp add: request_otp_overflow)
qed

lemma step_verify_otp:
  "\<exists>db'. step (Some db) (VerifyOTP e c now) = Some db' \<and>
         (otp db' = otp db \<or>
          (\<exists>i < length (otp db). \<not> otp_used (otp db ! i) \<and>
             otp db' = (otp db)[i := (otp db ! i)\<lparr>otp_used := True,
                                    otp_updated_at := Some (to_millis now)\<rparr>]))"
proof (cases "Some db" e c now rule: verify_otp_cases)
  case unconfigured
  then show ?thesis by simp
next
  case (no_match db0)
  then show ?thesis by simp
next
  case (match db0 i)
  then have eq: "db0 = db" by simp
  from match(3) eq have "\<not> otp_used (otp db ! i)" by (simp add: otp_matches_def)
  with match(2,5) eq show ?thesis by auto
qed

lemma step_used_monotone:
  "\<exists>db'. step (Some db) a = Some db' \<and> length (otp db) \<le> length (otp db') \<and>
         (\<forall>i < length (otp db). otp_used (otp db ! i) \<longrightarrow> otp_used (otp db' ! i))"
proof (cases a)
  case (RequestOTP e r t0 t1 t2 t3)
  from step_request_otp [of db e r t0 t1 t2 t3] RequestOTP show ?thesis
    by (auto simp: nth_append)
next
  case (VerifyOTP e c now)
  from step_verify_otp [of db e c now] VerifyOTP show ?thesis
    by (auto simp: nth_list_update)
qed

lemma run_used_monotone:
  "\<exists>db'. run (Some db) cs = Some db' \<and> length (otp db) \<le> length (otp db') \<and>
         (\<forall>i < length (otp db). otp_used (otp db ! i) \<longrightarrow> otp_used (otp db' ! i))"
proof (induction cs arbitrary: db)
  case Nil
  show ?case by (simp add: run_def)
next
  case (Cons a cs)
  from step_used_monotone [of db a] obtain db1 where
    s: "step (Some db) a = Some db1" "length (otp db) \<le> length (otp db1)"
    "\<forall>i < length (otp db). otp_used (otp db ! i) \<longrightarrow> otp_used (otp db1 ! i)"
    by blast
  from Cons.IH [of db1] obtain db' where
    r: "run (Some db1) cs = Some db'" "length (otp db1) \<le> length (otp db')"
    "\<forall>i < length (otp db1). otp_used (otp db1 ! i) \<longrightarrow> otp_used (otp db' ! i)"
    by blast
  from s(1) r(1) have "run (Some db) (a # cs) = Some db'" by (simp add: run_def)
  moreover from s(2) r(2) have "length (otp db) \<le> length (otp db')" by simp
  moreover have "otp_used (otp db' ! i)" if "i < length (otp db)" "otp_used (otp db ! i)" for i
    using that s(2,3) r(3) by (meson less_le_trans)
  ultimately show ?case by blast
qed

lemma run_append: "run dbo (cs1 @ cs2) = run (run dbo cs1) cs2"
  by (simp add: run_def)

text \<open>
  C8: \<^verbatim>\<open>used\<close> only ever goes from false to true. \<^verbatim>\<open>request_otp\<close> leaves the \<^verbatim>\<open>otp\<close>
  collection as it is or appends one document with \<^verbatim>\<open>used\<close> false; \<^verbatim>\<open>verify_otp\<close> leaves
  it as it is or sets \<^verbatim>\<open>used\<close> (and \<^verbatim>\<open>updated_at\<close>) in one document whose \<^verbatim>\<open>used\<close> was
  false. So along every sequence of calls, between the stores after any \<open>j\<close> and any
  later \<open>k\<close> calls no document is lost and a document that is used stays used: each
  document changes from unused to used at most once and never back.
\<close>

theorem used_false_to_true_once:
  "(\<exists>db'. step (Some db) (RequestOTP e r t0 t1 t2 t3) = Some db' \<and>
      (otp db' = otp db \<or> (\<exists>d. otp db' = otp db @ [d] \<and> \<not> otp_used d))) \<and>
   (\<exists>db'. step (Some db) (VerifyOTP e c now) = Some db' \<and>
      (otp db' = otp db \<or>
       (\<exists>i < length (otp db). \<not> otp_used (otp db ! i) \<and>
          otp db' = (otp db)[i := (otp db ! i)\<lparr>otp_used := True,
                                 otp_updated_at := Some (to_millis now)\<rparr>]))) \<and>
   (\<forall>j k. j \<le> k \<longrightarrow>
      (\<exists>dj dk. run (Some db) (take j cs) = Some dj \<and> run (Some db) (take k cs) = Some dk \<and>
         length (otp dj) \<le> length (otp dk) \<and>
         (\<forall>i < length (otp dj). otp_used (otp dj ! i) \<longrightarrow> otp_used (otp dk ! i))))"
proof -
  have trace: "\<exists>dj dk. run (Some db) (take j cs) = Some dj \<and>
      run (Some db) (take k cs) = Some dk \<and> length (otp dj) \<le> length (otp dk) \<and>
      (\<forall>i < length (otp dj). otp_used (otp dj ! i) \<longrightarrow> otp_used (otp dk ! i))"
    if "j \<le> k" for j k
  proof -
    from that have "take j (take k cs) = take j cs" by (simp add: min_def)
    then have split: "take k cs = take j cs @ drop j (take k cs)"
      by (metis append_take_drop_id)
    from run_used_monotone [of db "take j cs"] obtain dj where
      dj: "run (Some db) (take j cs) = Some dj" by blast
    from run_used_monotone [of dj "drop j (take k cs)"] obtain dk where
      dk: "run (Some dj) (drop j (take k cs)) = Some dk" "length (otp dj) \<le> length (otp dk)"
      "\<forall>i < length (otp dj). otp_used (otp dj ! i) \<longrightarrow> otp_used (otp dk ! i)"
      by blast
    from split dj dk(1) have "run (Some db) (take k cs) = Some dk"
      by (metis run_append)
    with dj dk(2,3) show ?thesis by blast
  qed
  from step_request_otp [of db e r t0 t1 t2 t3] step_verify_otp [of db e c now] trace
  show ?thesis by blast
qed

theorem used_false_to_true_once_witness:
  "run (Some \<lparr>otp = [], authuser = []\<rparr>)
     (take 1 [RequestOTP ''a@b.com'' 42 1000500 1001500 1002500 1003500,
              VerifyOTP ''a@b.com'' ''000042'' 2000999,
              VerifyOTP ''a@b.com'' ''000042'' 3000999]) =
   Some \<lparr>otp = [\<lparr>otp_email = ''a@b.com'', otp_code = ''000042'', otp_expires_at = 301000,
                  otp_used = False, otp_created_at = 1001, otp_updated_at = None\<rparr>],
          authuser = [\<lparr>user_email = ''a@b.com'', display_name = None, is_verified = False,
                       user_created_at = Some 1002, user_updated_at = 1003,
                       last_login = None\<rparr>]\<rparr> \<and>
   run (Some \<lparr>otp = [], authuser = []\<rparr>)
     (take 2 [RequestOTP ''a@b.com'' 42 1000500 1001500 1002500 1003500,
              VerifyOTP ''a@b.com'' ''000042'' 2000999,
              VerifyOTP ''a@b.com'' ''000042'' 3000999]) =
   Some \<lparr>otp = [\<lparr>otp_email = ''a@b.com'', otp_code = ''000042'', otp_expires_at = 301000,
                  otp_used = True, otp_created_at = 1001, otp_updated_at = Some 2000\<rparr>],
          authuser = [\<lparr>user_email = ''a@b.com'', display_name = None, is_verified = True,
                       user_created_at = Some 1002, user_updated_at = 2000,
                       last_login = Some 2000\<rparr>]\<rparr> \<and>
   run (Some \<lparr>otp = [], authuser = []\<rparr>)
     (take 3 [RequestOTP ''a@b.com'' 42 1000500 1001500 1002500 1003500,
              VerifyOTP ''a@b.com'' ''000042'' 2000999,
              VerifyOTP ''a@b.com'' ''000042'' 3000999]) =
   Some \<lparr>otp = [\<lparr>otp_email = ''a@b.com'', otp_code = ''000042'', otp_expires_at = 301000,
                  otp_used = True, otp_created_at = 1001, otp_updated_at = Some 2000\<rparr>],
          authuser = [\<lparr>user_email = ''a@b.com'', display_name = None, is_verified = True,
                       user_created_at = Some 1002, user_updated_at = 2000,
                       last_login = Some 2000\<rparr>]\<rparr>"
  (is "run (Some ?db) (take 1 ?cs) = Some ?d1 \<and> run (Some ?db) (take 2 ?cs) = Some ?d2 \<and>
       run (Some ?db) (take 3 ?cs) = Some ?d3")
proof -
  have h1: "run (Some ?db) (take 1 ?cs) = Some ?d1" by code_simp
  have h2: "run (Some ?db) (take 2 ?cs) = Some ?d2" by code_simp
  have h3: "run (Some ?db) (take 3 ?cs) = Some ?d3" by code_simp
  have le: "(2 :: nat) \<le> 3" by simp
  from used_false_to_true_once [where db = ?db and cs = ?cs]
  have "\<exists>dj dk. run (Some ?db) (take 2 ?cs) = Some dj \<and> run (Some ?db) (take 3 ?cs) = Some dk \<and>
      length (otp dj) \<le> length (otp dk) \<and>
      (\<forall>i < length (otp dj). otp_used (otp dj ! i) \<longrightarrow> otp_used (otp dk ! i))"
    using le by blast
  with h1 h2 h3 show ?thesis by simp
qed

end
